theory Spec2Isabelle
  imports Main "HOL-Library.Word"
begin

unbundle bit_operations_syntax

section \<open>Values, errors and object representations\<close>

text \<open>
  The frame bus of \<^verbatim>\<open>include/Interface\<close>: \<^verbatim>\<open>IFrame\<close> (signal table and callback
  engine), \<^verbatim>\<open>FrameBase<DataT, Derived>\<close> (the data block and its serializer pair),
  \<^verbatim>\<open>PortBase<Derived>\<close> (the port mediation layer) and \<^verbatim>\<open>FrameBus\<close>.

  Every C++ exception is a value of type \<open>error\<close>; a member function that can throw
  returns its result (or the error) together with the object as it is left behind.
  \<^item> \<open>UnknownSignal name\<close>: \<^verbatim>\<open>std::runtime_error("Unknown signal: " + name)\<close>;
  \<^item> \<open>TypeMismatch\<close>: \<^verbatim>\<open>std::bad_any_cast\<close> thrown by \<^verbatim>\<open>std::any_cast<Field>\<close>;
  \<^item> \<open>SizeMismatch got expected\<close>: \<^verbatim>\<open>std::runtime_error("FrameBase: deserialize size
    mismatch: got ..., expected ...")\<close>;
  \<^item> \<open>FrameNotFound\<close>: \<^verbatim>\<open>std::runtime_error("Frame not found")\<close>;
  \<^item> \<open>MisuseError\<close>: \<^verbatim>\<open>std::logic_error("Use addSnapshotCallback for Threaded policy")\<close>;
  \<^item> \<open>CallbackException\<close>: whatever a subscriber's callback throws.
\<close>

type_synonym byte = "8 word"

datatype error =
    UnknownSignal string
  | TypeMismatch
  | SizeMismatch nat nat
  | FrameNotFound
  | MisuseError
  | CallbackException

type_synonym 'a result = "error + 'a"

text \<open>
  The field types of a data struct. A \<^verbatim>\<open>std::any\<close> is either empty or holds a value of
  one of them; \<^verbatim>\<open>float\<close> and \<^verbatim>\<open>double\<close> values are carried as their 32 and 64 bit
  patterns, so that equality below is equality of representations.
\<close>

datatype ctype = CUInt8 | CInt | CFloat | CDouble

datatype any =
    AEmpty
  | AUInt8 "8 word"
  | AInt "32 word"
  | AFloat "32 word"
  | ADouble "64 word"

fun sizeof :: "ctype \<Rightarrow> nat" where
  "sizeof CUInt8 = 1"
| "sizeof CInt = 4"
| "sizeof CFloat = 4"
| "sizeof CDouble = 8"

fun any_type :: "any \<Rightarrow> ctype option" where
  "any_type AEmpty = None"
| "any_type (AUInt8 _) = Some CUInt8"
| "any_type (AInt _) = Some CInt"
| "any_type (AFloat _) = Some CFloat"
| "any_type (ADouble _) = Some CDouble"

text \<open>The bytes of a scalar in memory, least significant byte first.\<close>

fun to_bytes :: "nat \<Rightarrow> 'a::len word \<Rightarrow> byte list" where
  "to_bytes 0 w = []"
| "to_bytes (Suc n) w = ucast w # to_bytes n (drop_bit 8 w)"

fun from_bytes :: "byte list \<Rightarrow> 'a::len word" where
  "from_bytes [] = 0"
| "from_bytes (b # bs) = ucast b OR push_bit 8 (from_bytes bs)"

fun object_rep :: "any \<Rightarrow> byte list" where
  "object_rep AEmpty = []"
| "object_rep (AUInt8 w) = to_bytes 1 w"
| "object_rep (AInt w) = to_bytes 4 w"
| "object_rep (AFloat w) = to_bytes 4 w"
| "object_rep (ADouble w) = to_bytes 8 w"

fun load :: "ctype \<Rightarrow> byte list \<Rightarrow> any" where
  "load CUInt8 bs = AUInt8 (from_bytes bs)"
| "load CInt bs = AInt (from_bytes bs)"
| "load CFloat bs = AFloat (from_bytes bs)"
| "load CDouble bs = ADouble (from_bytes bs)"

text \<open>\<^verbatim>\<open>std::memcpy(dst, src, n)\<close> on two buffers, returning the destination.\<close>

definition memcpy :: "byte list \<Rightarrow> byte list \<Rightarrow> nat \<Rightarrow> byte list" where
  "memcpy dst src n = take n src @ drop n dst"

text \<open>
  The data block \<^verbatim>\<open>data_F\<close> of a frame is the object representation of its \<^verbatim>\<open>DataT\<close>:
  a byte list whose length is \<^verbatim>\<open>sizeof(DataT)\<close>. A data member \<^verbatim>\<open>x_\<close> of the class
  \<^verbatim>\<open>FrameBase\<close> or \<^verbatim>\<open>IFrame\<close> is the record field \<open>x_F\<close> below.
\<close>

definition sizeof_Data :: "byte list \<Rightarrow> nat" where
  "sizeof_Data d = length d"

text \<open>
  A pointer to member \<^verbatim>\<open>Field T::*\<close>: where the field lies in the struct and its type.
\<close>

record member =
  m_offset :: nat
  m_type :: ctype

definition member_in :: "member \<Rightarrow> byte list \<Rightarrow> bool" where
  "member_in m d \<longleftrightarrow> m_offset m + sizeof (m_type m) \<le> sizeof_Data d"

text \<open>\<^verbatim>\<open>data_ptr->*member\<close> read, as the getter lambda of \<^verbatim>\<open>registerSignal\<close> does.\<close>

definition read_member :: "member \<Rightarrow> byte list \<Rightarrow> any" where
  "read_member m d = load (m_type m) (take (sizeof (m_type m)) (drop (m_offset m) d))"

text \<open>
  The setter lambda of \<^verbatim>\<open>registerSignal\<close>:
  \<^verbatim>\<open>data_ptr->*member = std::any_cast<Field>(v)\<close>. The cast throws unless the value held
  by \<open>v\<close> has exactly the type \<^verbatim>\<open>Field\<close>.
\<close>

definition write_member :: "member \<Rightarrow> any \<Rightarrow> byte list \<Rightarrow> unit result \<times> byte list" where
  "write_member m v d =
     (if any_type v = Some (m_type m)
      then (Inr (), take (m_offset m) d @ object_rep v
                     @ drop (m_offset m + sizeof (m_type m)) d)
      else (Inl TypeMismatch, d))"

section \<open>The callback engine's data\<close>

datatype CallbackPolicy = Direct | Threaded

type_synonym CallbackId = "64 word"

text \<open>
  A callback is the subscriber's code, held in a \<^verbatim>\<open>std::function\<close>; \<open>None\<close> is an empty
  one. What the engine can see of a call is whether it returns or throws, so a closure
  is a handle naming it and \<open>throws\<close>, which says for each data block (or snapshot)
  the closure is called with whether that call throws. Each invocation is recorded in
  the frame's \<open>trace_F\<close>, also the one that throws.
\<close>

record closure =
  handle :: nat
  throws :: "byte list \<Rightarrow> bool"

type_synonym Callback = closure
type_synonym SnapshotCallback = closure

datatype event =
    DirectCall CallbackId nat "byte list"
  | SnapshotCall CallbackId nat "byte list" nat

text \<open>
  \<open>DirectCall i c d\<close>: \<^verbatim>\<open>entry.cb(*this)\<close> of the entry \<open>i\<close>, the closure \<open>c\<close>, on the
  publishing thread, the frame's data block being \<open>d\<close>.
  \<open>SnapshotCall i c s n\<close>: \<^verbatim>\<open>cb(snapshot, snapshot.size())\<close> on the worker of entry \<open>i\<close>.

  The \<^verbatim>\<open>std::thread worker\<close> of a Threaded entry is \<open>Running\<close> (in its loop, or waiting
  on the condition variable), \<open>Terminated\<close> (an exception has left the thread function,
  which has no handler: nothing is delivered any more) or \<open>Joined\<close>.
\<close>

datatype thread = Running | Terminated | Joined

record ThreadedData =
  worker :: thread
  queue :: "byte list list"
  stop :: bool

record CallbackEntry =
  id_entry :: CallbackId
  cb :: "Callback option"
  snapshotCb :: "SnapshotCallback option"
  policy :: CallbackPolicy
  threadedData :: "ThreadedData option"

section \<open>Frames\<close>

record frame =
  instanceName_F :: string
  data_F :: "byte list"
  serializer_F :: "byte list \<Rightarrow> byte list"
  deserializer_F :: "byte list \<Rightarrow> byte list \<Rightarrow> unit result \<times> byte list"
  getters_F :: "string \<rightharpoonup> member"
  setters_F :: "string \<rightharpoonup> member"
  callbacks_F :: "CallbackEntry list"
  nextCallbackId_F :: CallbackId
  trace_F :: "event list"

text \<open>The two lambdas installed by the constructor of \<^verbatim>\<open>FrameBase\<close>.\<close>

definition default_serializer :: "byte list \<Rightarrow> byte list" where
  "default_serializer d = memcpy (replicate (sizeof_Data d) 0) d (sizeof_Data d)"

definition default_deserializer :: "byte list \<Rightarrow> byte list \<Rightarrow> unit result \<times> byte list" where
  "default_deserializer d buf =
     (if length buf \<noteq> sizeof_Data d
      then (Inl (SizeMismatch (length buf) (sizeof_Data d)), d)
      else (Inr (), memcpy d buf (sizeof_Data d)))"

text \<open>
  \<^verbatim>\<open>FrameBase(instanceName)\<close> for a \<^verbatim>\<open>DataT\<close> of \<open>n\<close> bytes, after \<^verbatim>\<open>IFrame()\<close>: the data is
  zeroed, the callback counter starts at 1.
\<close>

definition FrameBase :: "nat \<Rightarrow> string \<Rightarrow> frame" where
  "FrameBase n instanceName =
     \<lparr> instanceName_F = instanceName,
       data_F = replicate n 0,
       serializer_F = default_serializer,
       deserializer_F = default_deserializer,
       getters_F = Map.empty,
       setters_F = Map.empty,
       callbacks_F = [],
       nextCallbackId_F = 1,
       trace_F = [] \<rparr>"

definition id_frame :: "frame \<Rightarrow> string" where
  "id_frame f = instanceName_F f"

definition size_frame :: "frame \<Rightarrow> nat" where
  "size_frame f = sizeof_Data (data_F f)"

definition setSerializer :: "(byte list \<Rightarrow> byte list) \<Rightarrow> frame \<Rightarrow> frame" where
  "setSerializer s f = f\<lparr>serializer_F := s\<rparr>"

definition setDeserializer ::
  "(byte list \<Rightarrow> byte list \<Rightarrow> unit result \<times> byte list) \<Rightarrow> frame \<Rightarrow> frame" where
  "setDeserializer d f = f\<lparr>deserializer_F := d\<rparr>"

subsection \<open>Signals\<close>

definition registerSignal :: "string \<Rightarrow> member \<Rightarrow> frame \<Rightarrow> frame" where
  "registerSignal name m f =
     f\<lparr>getters_F := (getters_F f)(name \<mapsto> m), setters_F := (setters_F f)(name \<mapsto> m)\<rparr>"

definition getSignal :: "string \<Rightarrow> frame \<Rightarrow> any result" where
  "getSignal name f =
     (case getters_F f name of
        None \<Rightarrow> Inl (UnknownSignal name)
      | Some m \<Rightarrow> Inr (read_member m (data_F f)))"

definition setSignal :: "string \<Rightarrow> any \<Rightarrow> frame \<Rightarrow> unit result \<times> frame" where
  "setSignal name v f =
     (case setters_F f name of
        None \<Rightarrow> (Inl (UnknownSignal name), f)
      | Some m \<Rightarrow>
          (case write_member m v (data_F f) of
             (r, d) \<Rightarrow> (r, f\<lparr>data_F := d\<rparr>)))"

text \<open>
  What \<^verbatim>\<open>registerSignal(name, member, ...)\<close> leaves behind for \<open>name\<close>, and what a frame
  holds for a name no call ever registered.
\<close>

definition registered :: "frame \<Rightarrow> string \<Rightarrow> member \<Rightarrow> bool" where
  "registered f name m \<longleftrightarrow> getters_F f name = Some m \<and> setters_F f name = Some m"

definition unregistered :: "frame \<Rightarrow> string \<Rightarrow> bool" where
  "unregistered f name \<longleftrightarrow> getters_F f name = None \<and> setters_F f name = None"

subsection \<open>Serialization\<close>

definition serialize :: "frame \<Rightarrow> byte list" where
  "serialize f = serializer_F f (data_F f)"

definition deserialize :: "byte list \<Rightarrow> frame \<Rightarrow> unit result \<times> frame" where
  "deserialize raw f =
     (case deserializer_F f (data_F f) raw of (r, d) \<Rightarrow> (r, f\<lparr>data_F := d\<rparr>))"


definition writeRawData :: "(byte list \<Rightarrow> nat \<Rightarrow> byte list \<times> 'r) \<Rightarrow> frame \<Rightarrow> 'r \<times> frame" where
  "writeRawData func f =
     (case func (data_F f) (sizeof_Data (data_F f)) of (d, r) \<Rightarrow> (r, f\<lparr>data_F := d\<rparr>))"

subsection \<open>The callback engine\<close>

text \<open>
  \<^verbatim>\<open>nextCallbackId_.fetch_add(1)\<close> returns the old value of the 64 bit counter and
  increments it before anything else happens, so \<open>addCallback\<close> with the policy
  \<open>Threaded\<close> has used up an id when it throws.
\<close>

definition addCallback ::
  "Callback option \<Rightarrow> CallbackPolicy \<Rightarrow> frame \<Rightarrow> CallbackId result \<times> frame" where
  "addCallback c p f =
     (let i = nextCallbackId_F f;
          f1 = f\<lparr>nextCallbackId_F := nextCallbackId_F f + 1\<rparr>
      in if p = Threaded then (Inl MisuseError, f1)
         else (Inr i,
               f1\<lparr>callbacks_F := callbacks_F f1 @
                  [\<lparr>id_entry = i, cb = c, snapshotCb = None, policy = p,
                    threadedData = None\<rparr>]\<rparr>))"

definition addSnapshotCallback :: "SnapshotCallback option \<Rightarrow> frame \<Rightarrow> CallbackId \<times> frame" where
  "addSnapshotCallback c f =
     (let i = nextCallbackId_F f;
          f1 = f\<lparr>nextCallbackId_F := nextCallbackId_F f + 1\<rparr>;
          threaded = \<lparr>worker = Running, queue = [], stop = False\<rparr>
      in (i,
          f1\<lparr>callbacks_F := callbacks_F f1 @
             [\<lparr>id_entry = i, cb = None, snapshotCb = c, policy = Threaded,
               threadedData = Some threaded\<rparr>]\<rparr>))"

text \<open>
  The worker thread started by \<^verbatim>\<open>addSnapshotCallback\<close>. One iteration with a non-empty
  queue moves the front snapshot out and calls \<^verbatim>\<open>cb(snapshot, snapshot.size())\<close> only
  \<^verbatim>\<open>if (!snapshot.empty())\<close>; the loop goes on while the queue is non-empty, then waits
  (or ends, once \<^verbatim>\<open>stop\<close> is set). The call is not inside a \<^verbatim>\<open>try\<close>: if it throws, and
  calling an empty \<^verbatim>\<open>std::function\<close> throws, the exception leaves the thread function
  and the snapshots still queued stay where they are.

  \<open>worker_call\<close> gives the call made for one snapshot and whether it threw;
  \<open>worker_loop i c q\<close> gives the calls the worker of entry \<open>i\<close> makes on the queue \<open>q\<close>,
  the queue it leaves, and whether an exception ended it.
\<close>

definition worker_call ::
  "CallbackId \<Rightarrow> SnapshotCallback option \<Rightarrow> byte list \<Rightarrow> event list \<times> bool" where
  "worker_call i c snapshot =
     (if snapshot \<noteq> []
      then (case c of
              Some g \<Rightarrow> ([SnapshotCall i (handle g) snapshot (length snapshot)],
                         throws g snapshot)
            | None \<Rightarrow> ([], True))
      else ([], False))"

fun worker_loop ::
  "CallbackId \<Rightarrow> SnapshotCallback option \<Rightarrow> byte list list
     \<Rightarrow> event list \<times> byte list list \<times> bool" where
  "worker_loop i c [] = ([], [], False)"
| "worker_loop i c (snapshot # q) =
     (case worker_call i c snapshot of
        (evs, thrown) \<Rightarrow>
          if thrown then (evs, q, True)
          else (case worker_loop i c q of
                  (evs', q', ended) \<Rightarrow> (evs @ evs', q', ended)))"




text \<open>
  \<^verbatim>\<open>CallbackEntry::stopAndJoin\<close> sets \<^verbatim>\<open>stop\<close> and joins the worker if it is joinable.
  \<^verbatim>\<open>join\<close> returns when a running worker has left its loop, which it does with \<^verbatim>\<open>stop\<close>
  set and the queue empty, having delivered what was queued.
\<close>

definition stopAndJoin :: "CallbackEntry \<Rightarrow> CallbackEntry \<times> event list" where
  "stopAndJoin e =
     (case threadedData e of
        None \<Rightarrow> (e, [])
      | Some td \<Rightarrow>
          if policy e = Threaded
          then (case worker td of
                  Running \<Rightarrow>
                    (case worker_loop (id_entry e) (snapshotCb e) (queue td) of
                       (evs, q', ended) \<Rightarrow>
                         (e\<lparr>threadedData :=
                              Some (td\<lparr>worker := (if ended then Terminated else Joined),
                                       queue := q', stop := True\<rparr>)\<rparr>,
                          evs))
                | Terminated \<Rightarrow> (e\<lparr>threadedData := Some (td\<lparr>stop := True\<rparr>)\<rparr>, [])
                | Joined \<Rightarrow> (e\<lparr>threadedData := Some (td\<lparr>stop := True\<rparr>)\<rparr>, []))
          else (e, []))"

fun stop_loop :: "CallbackEntry list \<Rightarrow> CallbackEntry list \<times> event list" where
  "stop_loop [] = ([], [])"
| "stop_loop (e # es) =
     (case stopAndJoin e of (e', evs) \<Rightarrow>
        (case stop_loop es of (es', evs') \<Rightarrow> (e' # es', evs @ evs')))"

definition stopThreadedCallbacks :: "frame \<Rightarrow> frame" where
  "stopThreadedCallbacks f =
     (case stop_loop (callbacks_F f) of
        (es, evs) \<Rightarrow> f\<lparr>callbacks_F := es, trace_F := trace_F f @ evs\<rparr>)"

text \<open>
  \<^verbatim>\<open>notifyCallbacks\<close>: one pass over \<^verbatim>\<open>callbacks_\<close>. A Direct entry with a callable is
  called with the frame; a Threaded entry with a callable and its thread data gets
  \<^verbatim>\<open>this->serialize()\<close> pushed on its queue. No call is inside a \<^verbatim>\<open>try\<close>: when a Direct
  callback throws, the exception leaves the loop and \<^verbatim>\<open>notifyCallbacks\<close>, and the
  entries after it are not visited.

  \<open>notify_entry\<close> is the body of the loop for one entry: whether it threw, the entry
  afterwards and the call made.
\<close>

definition notify_entry ::
  "frame \<Rightarrow> CallbackEntry \<Rightarrow> unit result \<times> CallbackEntry \<times> event list" where
  "notify_entry f e =
     (if policy e = Direct \<and> cb e \<noteq> None
      then ((if throws (the (cb e)) (data_F f) then Inl CallbackException else Inr ()),
            e, [DirectCall (id_entry e) (handle (the (cb e))) (data_F f)])
      else if policy e = Threaded \<and> snapshotCb e \<noteq> None \<and> threadedData e \<noteq> None
      then (Inr (),
            e\<lparr>threadedData :=
                Some ((the (threadedData e))
                        \<lparr>queue := queue (the (threadedData e)) @ [serialize f]\<rparr>)\<rparr>, [])
      else (Inr (), e, []))"

fun notify_loop ::
  "frame \<Rightarrow> CallbackEntry list \<Rightarrow> unit result \<times> CallbackEntry list \<times> event list" where
  "notify_loop f [] = (Inr (), [], [])"
| "notify_loop f (e # es) =
     (case notify_entry f e of
        (Inl x, e', evs) \<Rightarrow> (Inl x, e' # es, evs)
      | (Inr u, e', evs) \<Rightarrow>
          (case notify_loop f es of
             (r, es', evs') \<Rightarrow> (r, e' # es', evs @ evs')))"

definition notifyCallbacks :: "frame \<Rightarrow> unit result \<times> frame" where
  "notifyCallbacks f =
     (case notify_loop f (callbacks_F f) of
        (r, es, evs) \<Rightarrow> (r, f\<lparr>callbacks_F := es, trace_F := trace_F f @ evs\<rparr>))"

fun remove_loop :: "CallbackId \<Rightarrow> CallbackEntry list \<Rightarrow> CallbackEntry list \<times> event list" where
  "remove_loop i [] = ([], [])"
| "remove_loop i (e # es) =
     (if id_entry e = i
      then (es, snd (stopAndJoin e))
      else (case remove_loop i es of (es', evs) \<Rightarrow> (e # es', evs)))"

definition removeCallback :: "CallbackId \<Rightarrow> frame \<Rightarrow> frame" where
  "removeCallback i f =
     (case remove_loop i (callbacks_F f) of
        (es, evs) \<Rightarrow> f\<lparr>callbacks_F := es, trace_F := trace_F f @ evs\<rparr>)"


definition deserializeWithPublish :: "byte list \<Rightarrow> frame \<Rightarrow> bool result \<times> frame" where
  "deserializeWithPublish raw f =
     (case deserializer_F f (data_F f) raw of
        (Inl e, d) \<Rightarrow> (Inl e, f\<lparr>data_F := d\<rparr>)
      | (Inr u, d) \<Rightarrow>
          (case notifyCallbacks (f\<lparr>data_F := d\<rparr>) of
             (Inl e, f') \<Rightarrow> (Inl e, f')
           | (Inr u', f') \<Rightarrow> (Inr (length raw = sizeof_Data (data_F f)), f')))"

text \<open>
  The subscribers \<^verbatim>\<open>notifyCallbacks\<close> calls in line, in the order of \<^verbatim>\<open>callbacks_\<close>, which
  is the order of registration (\<^verbatim>\<open>push_back\<close>).
\<close>

definition direct_subscribers :: "frame \<Rightarrow> (CallbackId \<times> Callback) list" where
  "direct_subscribers f =
     concat (map (\<lambda>e. case cb e of
                        Some c \<Rightarrow> if policy e = Direct then [(id_entry e, c)] else []
                      | None \<Rightarrow> [])
                 (callbacks_F f))"

section \<open>The frame bus and ports\<close>

text \<open>
  Frames are shared: the bus and every connected port hold a \<^verbatim>\<open>std::shared_ptr<IFrame>\<close>
  to the same object. A pointer is \<open>None\<close> (\<^verbatim>\<open>nullptr\<close>) or the address of a frame, and
  the heap gives the frame at each address. A data member \<^verbatim>\<open>x_\<close> of \<^verbatim>\<open>FrameBus\<close> is the
  field \<open>x_B\<close>, one of \<^verbatim>\<open>PortBase\<close> the field \<open>x_P\<close>.
\<close>

type_synonym FramePtr = "nat option"
type_synonym heap = "nat \<Rightarrow> frame"

record FrameBus =
  frames_B :: "string \<rightharpoonup> FramePtr"

definition registerFrame :: "string \<Rightarrow> FramePtr \<Rightarrow> FrameBus \<Rightarrow> FrameBus" where
  "registerFrame name fr bus = bus\<lparr>frames_B := (frames_B bus)(name \<mapsto> fr)\<rparr>"

definition getFrame :: "string \<Rightarrow> FrameBus \<Rightarrow> FramePtr" where
  "getFrame name bus = (case frames_B bus name of Some fr \<Rightarrow> fr | None \<Rightarrow> None)"

definition unregisterFrame :: "string \<Rightarrow> FrameBus \<Rightarrow> FrameBus" where
  "unregisterFrame name bus = bus\<lparr>frames_B := (frames_B bus)(name := None)\<rparr>"

record PortBase =
  instanceName_P :: string
  frames_P :: "string \<rightharpoonup> FramePtr"
  callback_map_P :: "CallbackId \<rightharpoonup> FramePtr"

definition PortBase_new :: "string \<Rightarrow> PortBase" where
  "PortBase_new instanceName =
     \<lparr>instanceName_P = instanceName, frames_P = Map.empty, callback_map_P = Map.empty\<rparr>"

definition findFrame :: "PortBase \<Rightarrow> string \<Rightarrow> FramePtr" where
  "findFrame p name = (case frames_P p name of Some fr \<Rightarrow> fr | None \<Rightarrow> None)"

definition connectFrame :: "string \<Rightarrow> FrameBus \<Rightarrow> PortBase \<Rightarrow> bool \<times> PortBase" where
  "connectFrame frameName bus p =
     (if frames_P p frameName \<noteq> None then (True, p)
      else (case getFrame frameName bus of
              None \<Rightarrow> (False, p)
            | Some r \<Rightarrow> (True, p\<lparr>frames_P := (frames_P p)(frameName \<mapsto> Some r)\<rparr>)))"

definition disconnectFrame :: "string \<Rightarrow> PortBase \<Rightarrow> PortBase" where
  "disconnectFrame frameName p = p\<lparr>frames_P := (frames_P p)(frameName := None)\<rparr>"



text \<open>
  The raw setters take \<^verbatim>\<open>(const char* data, size_t size)\<close>: here \<open>data\<close> is the buffer of
  \<open>size\<close> bytes at that pointer, so \<open>size\<close> is \<open>length data\<close>. The lambda handed to
  \<^verbatim>\<open>writeRawData\<close> returns the buffer it leaves and the flag \<^verbatim>\<open>ok\<close>.
\<close>

definition raw_writer :: "byte list \<Rightarrow> byte list \<Rightarrow> nat \<Rightarrow> byte list \<times> bool" where
  "raw_writer data buf bufsize =
     (if length data = bufsize then (memcpy buf data (length data), True) else (buf, False))"

definition setRawDataToFrame :: "string \<Rightarrow> byte list \<Rightarrow> PortBase \<Rightarrow> heap \<Rightarrow> bool \<times> heap" where
  "setRawDataToFrame frameName data p h =
     (case findFrame p frameName of
        None \<Rightarrow> (False, h)
      | Some r \<Rightarrow>
          (case writeRawData (raw_writer data) (h r) of
             (ok, f') \<Rightarrow> (ok, h(r := f'))))"

text \<open>
  \<open>setRawDataToFrameWithPublish\<close> calls \<^verbatim>\<open>notifyCallbacks\<close> outside any \<^verbatim>\<open>try\<close>, so
  what a subscriber throws leaves the port.
\<close>

definition setRawDataToFrameWithPublish ::
  "string \<Rightarrow> byte list \<Rightarrow> PortBase \<Rightarrow> heap \<Rightarrow> bool result \<times> heap" where
  "setRawDataToFrameWithPublish frameName data p h =
     (case findFrame p frameName of
        None \<Rightarrow> (Inr False, h)
      | Some r \<Rightarrow>
          (case writeRawData (raw_writer data) (h r) of
             (ok, f') \<Rightarrow>
               if ok
               then (case notifyCallbacks f' of
                       (Inl e, f'') \<Rightarrow> (Inl e, h(r := f''))
                     | (Inr u, f'') \<Rightarrow> (Inr ok, h(r := f'')))
               else (Inr ok, h(r := f'))))"

definition getSignalFromFrameAsAny :: "string \<Rightarrow> string \<Rightarrow> PortBase \<Rightarrow> heap \<Rightarrow> any result" where
  "getSignalFromFrameAsAny frameName signal p h =
     (case findFrame p frameName of
        None \<Rightarrow> Inl FrameNotFound
      | Some r \<Rightarrow> getSignal signal (h r))"

text \<open>\<^verbatim>\<open>IPort::getSignalFromFrame<T>\<close>: \<^verbatim>\<open>std::any_cast<T>\<close> of the value above.\<close>

definition getSignalFromFrame ::
  "ctype \<Rightarrow> string \<Rightarrow> string \<Rightarrow> PortBase \<Rightarrow> heap \<Rightarrow> any result" where
  "getSignalFromFrame t frameName signal p h =
     (case getSignalFromFrameAsAny frameName signal p h of
        Inl e \<Rightarrow> Inl e
      | Inr v \<Rightarrow> if any_type v = Some t then Inr v else Inl TypeMismatch)"


definition subscribeFrame ::
  "string \<Rightarrow> SnapshotCallback \<Rightarrow> PortBase \<Rightarrow> heap \<Rightarrow> CallbackId \<times> PortBase \<times> heap" where
  "subscribeFrame frameName c p h =
     (case findFrame p frameName of
        None \<Rightarrow> (0, p, h)
      | Some r \<Rightarrow>
          (case addSnapshotCallback (Some c) (h r) of
             (i, f') \<Rightarrow>
               (i, p\<lparr>callback_map_P := (callback_map_P p)(i \<mapsto> Some r)\<rparr>, h(r := f'))))"

definition subscribeFrameDirect ::
  "string \<Rightarrow> Callback \<Rightarrow> PortBase \<Rightarrow> heap \<Rightarrow> CallbackId result \<times> PortBase \<times> heap" where
  "subscribeFrameDirect frameName c p h =
     (case findFrame p frameName of
        None \<Rightarrow> (Inr 0, p, h)
      | Some r \<Rightarrow>
          (case addCallback (Some c) Direct (h r) of
             (Inl e, f') \<Rightarrow> (Inl e, p, h(r := f'))
           | (Inr i, f') \<Rightarrow>
               (Inr i, p\<lparr>callback_map_P := (callback_map_P p)(i \<mapsto> Some r)\<rparr>,
                h(r := f'))))"

definition unsubscribeFrame :: "CallbackId \<Rightarrow> PortBase \<Rightarrow> heap \<Rightarrow> PortBase \<times> heap" where
  "unsubscribeFrame callbackId p h =
     (case callback_map_P p callbackId of
        None \<Rightarrow> (p, h)
      | Some fr \<Rightarrow>
          (p\<lparr>callback_map_P := (callback_map_P p)(callbackId := None)\<rparr>,
           (case fr of
              None \<Rightarrow> h
            | Some r \<Rightarrow> h(r := removeCallback callbackId (h r)))))"

subsection \<open>The frame of the example program\<close>

text \<open>
  \<^verbatim>\<open>FrameImpl\<close> of \<^verbatim>\<open>example/external_com.cpp\<close>: the packed struct
  \<^verbatim>\<open>MyData { int value; double timestamp; }\<close> of 12 bytes and its two signals.
\<close>

definition MyData_value :: member where
  "MyData_value = \<lparr>m_offset = 0, m_type = CInt\<rparr>"

definition MyData_timestamp :: member where
  "MyData_timestamp = \<lparr>m_offset = 4, m_type = CDouble\<rparr>"

definition FrameImpl :: "string \<Rightarrow> frame" where
  "FrameImpl instanceName =
     registerSignal ''timestamp'' MyData_timestamp
       (registerSignal ''value'' MyData_value (FrameBase 12 instanceName))"

subsection \<open>A bus, a port and a heap for the example\<close>

text \<open>
  \<^verbatim>\<open>main\<close> of the example registers one \<^verbatim>\<open>FrameImpl\<close> under the name
  \<^verbatim>\<open>"SharedFrame"\<close> and connects its ports to it. The frame lives at address 0.
\<close>

definition example_bus :: FrameBus where
  "example_bus = registerFrame ''SharedFrame'' (Some 0) \<lparr>frames_B = Map.empty\<rparr>"

definition example_port :: PortBase where
  "example_port = snd (connectFrame ''SharedFrame'' example_bus (PortBase_new ''Client1''))"

definition example_heap :: heap where
  "example_heap = (\<lambda>r. FrameImpl ''SharedFrame'')"

section \<open>Notions used by the statements\<close>

text \<open>
  Two kinds of closure: one that returns whatever it is called with, one that throws
  whatever it is called with.
\<close>

definition returning :: "nat \<Rightarrow> closure" where
  "returning n = \<lparr>handle = n, throws = (\<lambda>d. False)\<rparr>"

definition throwing :: "nat \<Rightarrow> closure" where
  "throwing n = \<lparr>handle = n, throws = (\<lambda>d. True)\<rparr>"


definition direct_in :: "CallbackEntry list \<Rightarrow> (CallbackId \<times> Callback) list" where
  "direct_in es =
     concat (map (\<lambda>e. case cb e of
                        Some c \<Rightarrow> if policy e = Direct then [(id_entry e, c)] else []
                      | None \<Rightarrow> [])
                 es)"

text \<open>
  \<open>all_return d subs\<close>: none of the subscribers throws when called on the data block
  \<open>d\<close>. \<open>called d subs\<close>: the subscribers up to and including the first that throws on
  \<open>d\<close>, all of them if none does.
\<close>

definition all_return :: "byte list \<Rightarrow> (CallbackId \<times> Callback) list \<Rightarrow> bool" where
  "all_return d subs = list_all (\<lambda>ic. \<not> throws (snd ic) d) subs"


text \<open>
  A run of calls to the callback engine of one frame, with the ids it returns in the
  order of the calls. An \<open>addCallback\<close> that throws returns no id.
\<close>

datatype callback_op =
    AddCallback "Callback option" CallbackPolicy
  | AddSnapshotCallback "SnapshotCallback option"
  | RemoveCallback CallbackId

fun callback_call :: "callback_op \<Rightarrow> frame \<Rightarrow> CallbackId option \<times> frame" where
  "callback_call (AddCallback c p) f =
     (case addCallback c p f of (Inl e, f') \<Rightarrow> (None, f') | (Inr i, f') \<Rightarrow> (Some i, f'))"
| "callback_call (AddSnapshotCallback c) f =
     (case addSnapshotCallback c f of (i, f') \<Rightarrow> (Some i, f'))"
| "callback_call (RemoveCallback i) f = (None, removeCallback i f)"

fun callback_calls :: "callback_op list \<Rightarrow> frame \<Rightarrow> CallbackId list \<times> frame" where
  "callback_calls [] f = ([], f)"
| "callback_calls (c # cs) f =
     (case callback_call c f of
        (r, f') \<Rightarrow>
          (case callback_calls cs f' of
             (ids, f'') \<Rightarrow> ((case r of Some i \<Rightarrow> [i] | None \<Rightarrow> []) @ ids, f'')))"


definition serialize_at :: "frame \<Rightarrow> byte list \<Rightarrow> byte list" where
  "serialize_at f d = serialize (f\<lparr>data_F := d\<rparr>)"

text \<open>
  The entry with a given id and the queue of its worker. A Threaded subscription with
  the callback \<open>c\<close> is what \<open>addSnapshotCallback (Some c)\<close> makes: a Threaded entry
  holding \<open>c\<close> whose worker is running.
\<close>

definition find_entry :: "CallbackId \<Rightarrow> CallbackEntry list \<Rightarrow> CallbackEntry option" where
  "find_entry i es = find (\<lambda>e. id_entry e = i) es"

definition entry_queue :: "CallbackEntry \<Rightarrow> byte list list" where
  "entry_queue e = (case threadedData e of Some td \<Rightarrow> queue td | None \<Rightarrow> [])"

definition queue_of :: "CallbackId \<Rightarrow> frame \<Rightarrow> byte list list" where
  "queue_of i f = (case find_entry i (callbacks_F f) of Some e \<Rightarrow> entry_queue e | None \<Rightarrow> [])"

definition threaded_entry :: "SnapshotCallback \<Rightarrow> CallbackEntry \<Rightarrow> bool" where
  "threaded_entry c e \<longleftrightarrow>
     policy e = Threaded \<and> snapshotCb e = Some c
     \<and> (case threadedData e of Some td \<Rightarrow> worker td = Running | None \<Rightarrow> False)"

definition threaded_subscription :: "frame \<Rightarrow> CallbackId \<Rightarrow> SnapshotCallback \<Rightarrow> bool" where
  "threaded_subscription f i c \<longleftrightarrow>
     (case find_entry i (callbacks_F f) of Some e \<Rightarrow> threaded_entry c e | None \<Rightarrow> False)"





subsection \<open>Concrete frames and inputs\<close>



definition first_throws_frame :: frame where
  "first_throws_frame =
     snd (addCallback (Some (returning 22)) Direct
            (snd (addCallback (Some (throwing 11)) Direct (FrameImpl ''SharedFrame''))))"

definition first_throws_heap :: heap where
  "first_throws_heap = example_heap(0 := first_throws_frame)"







definition example_calls :: "callback_op list" where
  "example_calls =
     [AddCallback (Some (returning 11)) Direct, AddCallback (Some (returning 5)) Threaded,
      AddSnapshotCallback (Some (returning 7)), RemoveCallback 1,
      AddCallback (Some (returning 22)) Direct]"

definition raw_777 :: "byte list" where
  "raw_777 = [9, 3, 0, 0, 0, 0, 0, 0, 0, 0, 0, 0]"

section \<open>Signal access\<close>

lemma length_to_bytes [simp]: "length (to_bytes n w) = n"
  by (induction n arbitrary: w) auto

lemma from_bytes_to_bytes: "from_bytes (to_bytes n w) = take_bit (8 * n) w"
proof (induction n arbitrary: w)
  case 0
  show ?case by simp
next
  case (Suc n)
  show ?case
    apply (simp add: Suc)
    apply (rule bit_word_eqI)
    apply (auto simp: bit_simps)
    done
qed

lemma length_object_rep: "any_type v = Some t \<Longrightarrow> length (object_rep v) = sizeof t"
  by (cases v) auto

lemma load_object_rep: "any_type v = Some t \<Longrightarrow> load t (object_rep v) = v"
  by (cases v) (auto simp: from_bytes_to_bytes take_bit_word_eq_self)

lemma read_write_member:
  assumes "member_in m d" and "any_type v = Some (m_type m)"
  shows "write_member m v d = (Inr (), d') \<Longrightarrow> read_member m d' = v"
proof -
  assume w: "write_member m v d = (Inr (), d')"
  have len: "length (object_rep v) = sizeof (m_type m)"
    using assms(2) by (rule length_object_rep)
  have off: "m_offset m \<le> length d"
    using assms(1) by (simp add: member_in_def sizeof_Data_def)
  from w assms(2) have d': "d' = take (m_offset m) d @ object_rep v
      @ drop (m_offset m + sizeof (m_type m)) d"
    by (simp add: write_member_def)
  have "take (sizeof (m_type m)) (drop (m_offset m) d') = object_rep v"
    using off len by (simp add: d')
  then show ?thesis
    using assms(2) by (simp add: read_member_def load_object_rep)
qed

lemma length_write_member:
  assumes "member_in m d"
  shows "length (snd (write_member m v d)) = length d"
proof (cases "any_type v = Some (m_type m)")
  case True
  then have "length (object_rep v) = sizeof (m_type m)"
    by (rule length_object_rep)
  then show ?thesis
    using assms True by (simp add: write_member_def member_in_def sizeof_Data_def)
next
  case False
  then show ?thesis by (simp add: write_member_def)
qed

lemma registered_registerSignal: "registered (registerSignal name m f) name m"
  by (simp add: registered_def registerSignal_def)

lemma registered_registerSignal_other:
  "name' \<noteq> name \<Longrightarrow> registered (registerSignal name' m' f) name m = registered f name m"
  by (simp add: registered_def registerSignal_def)

lemma unregistered_FrameBase: "unregistered (FrameBase n iname) name"
  by (simp add: unregistered_def FrameBase_def)

lemma unregistered_registerSignal:
  "unregistered (registerSignal name' m f) name \<longleftrightarrow> name' \<noteq> name \<and> unregistered f name"
  by (auto simp: unregistered_def registerSignal_def)

text \<open>
  C1. For a signal \<open>s\<close> registered by \<open>registerSignal\<close> with the member \<open>m\<close> of the
  frame's data struct (a member of \<^verbatim>\<open>DataT\<close> lies inside the data block) and a value \<open>v\<close>
  whose dynamic type is the field's type, \<open>setSignal s v\<close> succeeds and \<open>getSignal s\<close> on
  the frame it leaves returns \<open>v\<close>.
\<close>

theorem setSignal_then_getSignal:
  assumes "registered f s m"
    and "member_in m (data_F f)"
    and "any_type v = Some (m_type m)"
  shows "fst (setSignal s v f) = Inr ()
       \<and> getSignal s (snd (setSignal s v f)) = Inr v"
proof -
  from assms(1) have g: "getters_F f s = Some m" and st: "setters_F f s = Some m"
    by (simp_all add: registered_def)
  obtain d' where w: "write_member m v (data_F f) = (Inr (), d')"
    using assms(3) by (simp add: write_member_def)
  have rd: "read_member m d' = v"
    using read_write_member [OF assms(2) assms(3) w] .
  have s: "setSignal s v f = (Inr (), f\<lparr>data_F := d'\<rparr>)"
    by (simp add: setSignal_def st w)
  show ?thesis
    by (simp add: s getSignal_def g rd)
qed


theorem setSignal_then_getSignal_witness:
  "registered (FrameImpl ''SharedFrame'') ''value'' MyData_value
   \<and> member_in MyData_value (data_F (FrameImpl ''SharedFrame''))
   \<and> any_type (AInt 42) = Some (m_type MyData_value)
   \<and> fst (setSignal ''value'' (AInt 42) (FrameImpl ''SharedFrame'')) = Inr ()
   \<and> getSignal ''value'' (snd (setSignal ''value'' (AInt 42) (FrameImpl ''SharedFrame'')))
       = Inr (AInt 42)"
proof -
  have h1: "registered (FrameImpl ''SharedFrame'') ''value'' MyData_value"
    by (simp add: registered_def FrameImpl_def registerSignal_def)
  have h2: "member_in MyData_value (data_F (FrameImpl ''SharedFrame''))"
    by (simp add: member_in_def FrameImpl_def registerSignal_def FrameBase_def
        MyData_value_def sizeof_Data_def)
  have h3: "any_type (AInt 42) = Some (m_type MyData_value)"
    by (simp add: MyData_value_def)
  show ?thesis
    using h1 h2 h3 setSignal_then_getSignal [OF h1 h2 h3] by simp
qed

text \<open>
  C3. For a name \<open>u\<close> that was never registered, \<open>getSignal u\<close> and \<open>setSignal u v\<close> both
  fail with \<open>UnknownSignal u\<close>, and \<open>setSignal\<close> leaves the frame, its data block
  included, exactly as it was (\<open>getSignal\<close> is a \<^verbatim>\<open>const\<close> member: it returns no frame).
\<close>

theorem unknown_signal_fails:
  assumes "unregistered f u"
  shows "getSignal u f = Inl (UnknownSignal u)
       \<and> setSignal u v f = (Inl (UnknownSignal u), f)
       \<and> data_F (snd (setSignal u v f)) = data_F f"
  using assms by (simp add: unregistered_def getSignal_def setSignal_def)

theorem unknown_signal_fails_witness:
  "unregistered (FrameImpl ''SharedFrame'') ''speed''
   \<and> getSignal ''speed'' (FrameImpl ''SharedFrame'') = Inl (UnknownSignal ''speed'')
   \<and> setSignal ''speed'' (AInt 7) (FrameImpl ''SharedFrame'')
       = (Inl (UnknownSignal ''speed''), FrameImpl ''SharedFrame'')
   \<and> data_F (snd (setSignal ''speed'' (AInt 7) (FrameImpl ''SharedFrame'')))
       = data_F (FrameImpl ''SharedFrame'')"
proof -
  have h: "unregistered (FrameImpl ''SharedFrame'') ''speed''"
    by (simp add: FrameImpl_def unregistered_registerSignal unregistered_FrameBase)
  show ?thesis
    using h unknown_signal_fails [OF h, of "AInt 7"] by simp
qed

section \<open>Serialization\<close>

lemma memcpy_whole: "length src = n \<Longrightarrow> length dst = n \<Longrightarrow> memcpy dst src n = src"
  by (simp add: memcpy_def)

lemma default_serializer_copy: "default_serializer d = d"
  by (simp add: default_serializer_def sizeof_Data_def memcpy_whole)

lemma default_deserializer_mismatch:
  "length buf \<noteq> length d \<Longrightarrow>
   default_deserializer d buf = (Inl (SizeMismatch (length buf) (length d)), d)"
  by (simp add: default_deserializer_def sizeof_Data_def)

lemma default_deserializer_match:
  "length buf = length d \<Longrightarrow> default_deserializer d buf = (Inr (), buf)"
  by (simp add: default_deserializer_def sizeof_Data_def memcpy_whole)

text \<open>
  C4. With the default deserializer, \<open>deserialize buf\<close> on a buffer whose length is not
  the frame's fixed data size fails with \<open>SizeMismatch\<close>, and the frame, its data block
  included, is left exactly as it was.
\<close>

theorem deserialize_size_mismatch:
  assumes "deserializer_F f = default_deserializer"
    and "length buf \<noteq> size_frame f"
  shows "deserialize buf f = (Inl (SizeMismatch (length buf) (size_frame f)), f)
       \<and> data_F (snd (deserialize buf f)) = data_F f"
  using assms
  by (simp add: deserialize_def size_frame_def sizeof_Data_def default_deserializer_mismatch)

theorem deserialize_size_mismatch_witness:
  "deserializer_F (FrameImpl ''SharedFrame'') = default_deserializer
   \<and> length [1, 2, 3 :: byte] \<noteq> size_frame (FrameImpl ''SharedFrame'')
   \<and> deserialize [1, 2, 3] (FrameImpl ''SharedFrame'')
       = (Inl (SizeMismatch 3 12), FrameImpl ''SharedFrame'')
   \<and> data_F (snd (deserialize [1, 2, 3] (FrameImpl ''SharedFrame'')))
       = data_F (FrameImpl ''SharedFrame'')"
proof -
  have h1: "deserializer_F (FrameImpl ''SharedFrame'') = default_deserializer"
    by (simp add: FrameImpl_def registerSignal_def FrameBase_def)
  have sz: "size_frame (FrameImpl ''SharedFrame'') = 12"
    by (simp add: size_frame_def sizeof_Data_def FrameImpl_def registerSignal_def FrameBase_def)
  have h2: "length [1, 2, 3 :: byte] \<noteq> size_frame (FrameImpl ''SharedFrame'')"
    by (simp add: sz)
  show ?thesis
    using h1 h2 deserialize_size_mismatch [OF h1 h2] by (simp add: sz)
qed

text \<open>
  C8. With the default serializer and deserializer, \<open>serialize\<close> returns the data block
  itself, of exactly the fixed size, and \<open>deserialize\<close> of that buffer succeeds and leaves
  the frame, its data block included, as it was before the round trip.
\<close>

theorem deserialize_serialize_roundtrip:
  assumes "serializer_F f = default_serializer"
    and "deserializer_F f = default_deserializer"
  shows "serialize f = data_F f
       \<and> length (serialize f) = size_frame f
       \<and> deserialize (serialize f) f = (Inr (), f)
       \<and> data_F (snd (deserialize (serialize f) f)) = data_F f"
  using assms
  by (simp add: serialize_def deserialize_def size_frame_def sizeof_Data_def
      default_serializer_copy default_deserializer_match)

theorem deserialize_serialize_roundtrip_witness:
  "serializer_F (FrameImpl ''SharedFrame'') = default_serializer
   \<and> deserializer_F (FrameImpl ''SharedFrame'') = default_deserializer
   \<and> data_F (FrameImpl ''SharedFrame'') = replicate 12 0
   \<and> serialize (FrameImpl ''SharedFrame'') = data_F (FrameImpl ''SharedFrame'')
   \<and> deserialize (serialize (FrameImpl ''SharedFrame'')) (FrameImpl ''SharedFrame'')
       = (Inr (), FrameImpl ''SharedFrame'')"
proof -
  have h1: "serializer_F (FrameImpl ''SharedFrame'') = default_serializer"
    by (simp add: FrameImpl_def registerSignal_def FrameBase_def)
  have h2: "deserializer_F (FrameImpl ''SharedFrame'') = default_deserializer"
    by (simp add: FrameImpl_def registerSignal_def FrameBase_def)
  have d: "data_F (FrameImpl ''SharedFrame'') = replicate 12 0"
    by (simp add: FrameImpl_def registerSignal_def FrameBase_def)
  show ?thesis
    using h1 h2 d deserialize_serialize_roundtrip [OF h1 h2] by blast
qed

lemma FrameImpl_simps:
  "data_F (FrameImpl n) = replicate 12 0"
  "serializer_F (FrameImpl n) = default_serializer"
  "deserializer_F (FrameImpl n) = default_deserializer"
  "callbacks_F (FrameImpl n) = []"
  "trace_F (FrameImpl n) = []"
  "nextCallbackId_F (FrameImpl n) = 1"
  by (simp_all add: FrameImpl_def registerSignal_def FrameBase_def)

text \<open>
  C2. The claim is that \<open>deserializeWithPublish\<close> returns \<open>False\<close> on a buffer of the
  wrong length. With the default deserializer it does not return at all: the size check
  of the deserializer throws, and the exception leaves \<open>deserializeWithPublish\<close> before
  \<^verbatim>\<open>return raw.size() == sizeof(DataT)\<close> is reached. Here a buffer of 3 bytes is given
  to the example frame, whose data block has 12.
\<close>

theorem deserializeWithPublish_mismatch_throws:
  "deserializeWithPublish [1, 2, 3] (FrameImpl ''SharedFrame'')
     = (Inl (SizeMismatch 3 12), FrameImpl ''SharedFrame'')"
  by (simp add: deserializeWithPublish_def FrameImpl_simps default_deserializer_mismatch)

text \<open>
  So with the default deserializer no call returns \<open>False\<close>.
\<close>

lemma deserializeWithPublish_default:
  assumes "deserializer_F f = default_deserializer"
  shows "fst (deserializeWithPublish raw f) \<noteq> Inr False"
  using assms
  by (cases "length raw = length (data_F f)")
    (auto simp: deserializeWithPublish_def sizeof_Data_def
      default_deserializer_mismatch default_deserializer_match split: prod.splits sum.splits)

section \<open>Direct subscribers\<close>


lemma direct_in_Nil [simp]: "direct_in [] = []"
  by (simp add: direct_in_def)

lemma direct_in_Cons:
  "direct_in (e # es) =
     (case cb e of Some c \<Rightarrow> if policy e = Direct then [(id_entry e, c)] else [] | None \<Rightarrow> [])
     @ direct_in es"
  by (simp add: direct_in_def)

lemma direct_in_append: "direct_in (xs @ ys) = direct_in xs @ direct_in ys"
  by (simp add: direct_in_def)

lemma direct_subscribers_in: "direct_subscribers f = direct_in (callbacks_F f)"
  by (simp add: direct_subscribers_def direct_in_def)

lemma all_return_Nil [simp]: "all_return d []"
  by (simp add: all_return_def)

lemma all_return_Cons [simp]:
  "all_return d (ic # subs) \<longleftrightarrow> \<not> throws (snd ic) d \<and> all_return d subs"
  by (simp add: all_return_def)

lemma all_return_append [simp]:
  "all_return d (xs @ ys) \<longleftrightarrow> all_return d xs \<and> all_return d ys"
  by (simp add: all_return_def)








lemma notifyCallbacks_fields:
  "data_F (snd (notifyCallbacks f)) = data_F f"
  "getters_F (snd (notifyCallbacks f)) = getters_F f"
  "setters_F (snd (notifyCallbacks f)) = setters_F f"
  "serializer_F (snd (notifyCallbacks f)) = serializer_F f"
  "deserializer_F (snd (notifyCallbacks f)) = deserializer_F f"
  "nextCallbackId_F (snd (notifyCallbacks f)) = nextCallbackId_F f"
  by (simp_all add: notifyCallbacks_def case_prod_beta)





lemma direct_subscribers_addSnapshotCallback:
  "direct_subscribers (snd (addSnapshotCallback c f)) = direct_subscribers f"
  by (simp add: addSnapshotCallback_def direct_subscribers_in direct_in_append direct_in_Cons
      Let_def)

lemma direct_subscribers_data [simp]:
  "direct_subscribers (f\<lparr>data_F := d\<rparr>) = direct_subscribers f"
  by (simp add: direct_subscribers_def)

lemma findFrame_example: "findFrame example_port ''SharedFrame'' = Some 0"
  by (simp add: example_port_def example_bus_def connectFrame_def getFrame_def registerFrame_def
      PortBase_new_def findFrame_def)







section \<open>Callback ids\<close>

lemma removeCallback_next: "nextCallbackId_F (removeCallback i f) = nextCallbackId_F f"
  by (simp add: removeCallback_def case_prod_beta)

lemma callback_call_Some:
  "fst (callback_call c f) = Some i \<Longrightarrow>
   i = nextCallbackId_F f \<and> nextCallbackId_F (snd (callback_call c f)) = nextCallbackId_F f + 1"
  by (cases c)
    (auto simp: addCallback_def addSnapshotCallback_def Let_def split: if_splits)

lemma callback_call_None:
  "fst (callback_call c f) = None \<Longrightarrow>
   nextCallbackId_F (snd (callback_call c f)) = nextCallbackId_F f
   \<or> nextCallbackId_F (snd (callback_call c f)) = nextCallbackId_F f + 1"
  by (cases c)
    (auto simp: addCallback_def addSnapshotCallback_def Let_def removeCallback_next
      split: if_splits)

lemma unat_succ: "unat (w :: 64 word) + 1 < 2 ^ 64 \<Longrightarrow> unat (w + 1) = unat w + 1"
  by (simp add: unat_word_ariths)

lemma callback_call_unat:
  assumes "unat (nextCallbackId_F f) + 1 < 2 ^ 64"
  shows "unat (nextCallbackId_F f) \<le> unat (nextCallbackId_F (snd (callback_call c f)))
       \<and> unat (nextCallbackId_F (snd (callback_call c f))) \<le> unat (nextCallbackId_F f) + 1"
proof (cases "fst (callback_call c f)")
  case None
  then show ?thesis
    using callback_call_None [of c f] unat_succ [OF assms] by auto
next
  case (Some i)
  then show ?thesis
    using callback_call_Some [of c f i] unat_succ [OF assms] by auto
qed

lemma callback_calls_lower:
  "unat (nextCallbackId_F f) + length cs < 2 ^ 64 \<Longrightarrow>
   i \<in> set (fst (callback_calls cs f)) \<Longrightarrow> unat (nextCallbackId_F f) \<le> unat i"
proof (induction cs arbitrary: f)
  case Nil
  then show ?case by simp
next
  case (Cons c cs)
  let ?f' = "snd (callback_call c f)"
  have b: "unat (nextCallbackId_F f) + 1 < 2 ^ 64"
    using Cons.prems(1) by simp
  have u: "unat (nextCallbackId_F f) \<le> unat (nextCallbackId_F ?f')"
          "unat (nextCallbackId_F ?f') \<le> unat (nextCallbackId_F f) + 1"
    using callback_call_unat [OF b, of c] by simp_all
  have room: "unat (nextCallbackId_F ?f') + length cs < 2 ^ 64"
    using u(2) Cons.prems(1) by simp
  from Cons.prems(2)
  have "fst (callback_call c f) = Some i \<or> i \<in> set (fst (callback_calls cs ?f'))"
    by (auto simp: case_prod_beta split: option.splits)
  then show ?case
  proof
    assume "fst (callback_call c f) = Some i"
    then show ?thesis using callback_call_Some [of c f i] by simp
  next
    assume "i \<in> set (fst (callback_calls cs ?f'))"
    then have "unat (nextCallbackId_F ?f') \<le> unat i"
      using Cons.IH [OF room] by simp
    then show ?thesis using u(1) by simp
  qed
qed

lemma callback_calls_sorted:
  "unat (nextCallbackId_F f) + length cs < 2 ^ 64 \<Longrightarrow>
   sorted_wrt (<) (fst (callback_calls cs f))"
proof (induction cs arbitrary: f)
  case Nil
  then show ?case by simp
next
  case (Cons c cs)
  let ?f' = "snd (callback_call c f)"
  have b: "unat (nextCallbackId_F f) + 1 < 2 ^ 64"
    using Cons.prems by simp
  have u: "unat (nextCallbackId_F ?f') \<le> unat (nextCallbackId_F f) + 1"
    using callback_call_unat [OF b, of c] by simp
  have room: "unat (nextCallbackId_F ?f') + length cs < 2 ^ 64"
    using u Cons.prems by simp
  have tl: "sorted_wrt (<) (fst (callback_calls cs ?f'))"
    using Cons.IH [OF room] .
  show ?case
  proof (cases "fst (callback_call c f)")
    case None
    then show ?thesis using tl by (simp add: case_prod_beta)
  next
    case (Some i)
    have i: "i = nextCallbackId_F f" and n: "nextCallbackId_F ?f' = nextCallbackId_F f + 1"
      using callback_call_Some [OF Some] by simp_all
    have "i < j" if "j \<in> set (fst (callback_calls cs ?f'))" for j
    proof -
      have "unat (nextCallbackId_F ?f') \<le> unat j"
        using callback_calls_lower [OF room that] .
      then have "unat i < unat j"
        using unat_succ [OF b] by (simp add: n i)
      then show ?thesis by (simp add: word_less_nat_alt)
    qed
    then show ?thesis using tl Some by (simp add: case_prod_beta)
  qed
qed

text \<open>
  C9. In any run of \<open>addCallback\<close>, \<open>addSnapshotCallback\<close> and \<open>removeCallback\<close> calls
  on one frame, the ids returned are strictly increasing, hence pairwise distinct, and
  none is below the counter the run started with, so no id issued earlier comes back,
  whatever was removed. The 64 bit counter must not wrap: the run is shorter than the
  distance of the counter from \<open>2 ^ 64\<close> (for a new frame, fewer than \<open>2 ^ 64 - 1\<close>
  calls).
\<close>

theorem callback_ids_increasing:
  assumes "unat (nextCallbackId_F f) + length cs < 2 ^ 64"
  shows "sorted_wrt (<) (fst (callback_calls cs f))
       \<and> distinct (fst (callback_calls cs f))
       \<and> (\<forall>i \<in> set (fst (callback_calls cs f)). nextCallbackId_F f \<le> i)"
proof -
  have s: "sorted_wrt (<) (fst (callback_calls cs f))"
    using callback_calls_sorted [OF assms] .
  have "distinct (fst (callback_calls cs f))"
    using s strict_sorted_iff by (metis sorted_wrt_iff_nth_less distinct_conv_nth less_irrefl nat_neq_iff)
  moreover have "\<forall>i \<in> set (fst (callback_calls cs f)). nextCallbackId_F f \<le> i"
    using callback_calls_lower [OF assms] by (auto simp: word_le_nat_alt)
  ultimately show ?thesis using s by simp
qed

theorem callback_ids_increasing_witness:
  "unat (nextCallbackId_F (FrameImpl ''SharedFrame'')) + length example_calls < 2 ^ 64
   \<and> fst (callback_calls example_calls (FrameImpl ''SharedFrame'')) = [1, 3, 4]
   \<and> sorted_wrt (<) (fst (callback_calls example_calls (FrameImpl ''SharedFrame'')))
   \<and> distinct (fst (callback_calls example_calls (FrameImpl ''SharedFrame'')))"
proof -
  have h: "unat (nextCallbackId_F (FrameImpl ''SharedFrame'')) + length example_calls < 2 ^ 64"
    by (simp add: FrameImpl_simps example_calls_def)
  have ids: "fst (callback_calls example_calls (FrameImpl ''SharedFrame'')) = [1, 3, 4]"
    by code_simp
  show ?thesis
    using h ids callback_ids_increasing [OF h] by blast
qed

section \<open>Threaded subscribers\<close>






lemma threaded_subscription_data [simp]:
  "threaded_subscription (f\<lparr>data_F := d\<rparr>) i c = threaded_subscription f i c"
  by (simp add: threaded_subscription_def)

lemma queue_of_data [simp]: "queue_of i (f\<lparr>data_F := d\<rparr>) = queue_of i f"
  by (simp add: queue_of_def)

lemma serialize_at_notify [simp]:
  "serialize_at (snd (notifyCallbacks f)) d = serialize_at f d"
  by (simp add: serialize_at_def serialize_def notifyCallbacks_fields)

lemma serialize_at_data [simp]: "serialize_at (f\<lparr>data_F := d'\<rparr>) d = serialize_at f d"
  by (simp add: serialize_at_def)






lemma find_entry_append:
  "find_entry i (xs @ ys) =
     (case find_entry i xs of None \<Rightarrow> find_entry i ys | Some e \<Rightarrow> Some e)"
  by (induction xs) (simp_all add: find_entry_def)

text \<open>
  \<open>addSnapshotCallback\<close> with a callback makes a Threaded subscription under the id it
  returns, provided that id is not in use.
\<close>

lemma threaded_subscription_addSnapshotCallback:
  "find_entry (nextCallbackId_F f) (callbacks_F f) = None \<Longrightarrow>
   threaded_subscription (snd (addSnapshotCallback (Some c) f)) (nextCallbackId_F f) c"
  by (simp add: threaded_subscription_def addSnapshotCallback_def Let_def find_entry_def
      threaded_entry_def find_entry_append [unfolded find_entry_def])











section \<open>Ports\<close>

lemma raw_writer_eq:
  "raw_writer data buf (length buf) = (if length data = length buf then (data, True) else (buf, False))"
  by (simp add: raw_writer_def memcpy_whole)

text \<open>
  C10. For a connected frame, the two raw setters write the buffer into the data
  block exactly when its length is the frame's fixed size. On any other length both
  return \<open>False\<close> and the heap is unchanged: no byte is written, nobody is notified.
  On the fixed size \<open>setRawDataToFrame\<close> returns \<open>True\<close>, and
  \<open>setRawDataToFrameWithPublish\<close> notifies after the write and returns \<open>True\<close>, unless
  a subscriber throws, whose exception it lets through.
\<close>

theorem setRawData_size_gate:
  assumes "findFrame p fn = Some r"
  shows "setRawDataToFrame fn data p h =
           (if length data = size_frame (h r)
            then (True, h(r := (h r)\<lparr>data_F := data\<rparr>)) else (False, h))
       \<and> setRawDataToFrameWithPublish fn data p h =
           (if length data = size_frame (h r)
            then (case notifyCallbacks ((h r)\<lparr>data_F := data\<rparr>) of
                    (Inl e, f') \<Rightarrow> (Inl e, h(r := f'))
                  | (Inr u, f') \<Rightarrow> (Inr True, h(r := f')))
            else (Inr False, h))"
  using assms
  by (simp add: setRawDataToFrame_def setRawDataToFrameWithPublish_def writeRawData_def
      size_frame_def sizeof_Data_def raw_writer_eq)

theorem setRawData_size_gate_witness:
  "findFrame example_port ''SharedFrame'' = Some 0
   \<and> size_frame (example_heap 0) = 12
   \<and> setRawDataToFrame ''SharedFrame'' [1, 2, 3] example_port example_heap
       = (False, example_heap)
   \<and> setRawDataToFrameWithPublish ''SharedFrame'' [1, 2, 3] example_port example_heap
       = (Inr False, example_heap)
   \<and> setRawDataToFrameWithPublish ''SharedFrame'' [1, 2, 3] example_port first_throws_heap
       = (Inr False, first_throws_heap)
   \<and> fst (setRawDataToFrame ''SharedFrame'' raw_777 example_port example_heap) = True
   \<and> data_F (snd (setRawDataToFrame ''SharedFrame'' raw_777 example_port example_heap) 0)
       = raw_777
   \<and> fst (setRawDataToFrameWithPublish ''SharedFrame'' raw_777 example_port example_heap)
       = Inr True
   \<and> data_F (snd (setRawDataToFrameWithPublish ''SharedFrame'' raw_777 example_port
         example_heap) 0) = raw_777"
proof -
  have h: "findFrame example_port ''SharedFrame'' = Some 0"
    by (rule findFrame_example)
  have sz: "size_frame (example_heap 0) = 12"
    by (simp add: example_heap_def size_frame_def sizeof_Data_def FrameImpl_simps)
  have sz': "size_frame (first_throws_heap 0) = 12"
    by (simp add: first_throws_heap_def first_throws_frame_def addCallback_def Let_def
        size_frame_def sizeof_Data_def FrameImpl_simps)
  have l: "length raw_777 = 12"
    by (simp add: raw_777_def)
  have n: "notifyCallbacks ((example_heap 0)\<lparr>data_F := raw_777\<rparr>)
      = (Inr (), (example_heap 0)\<lparr>data_F := raw_777\<rparr>)"
    by (simp add: notifyCallbacks_def example_heap_def FrameImpl_simps)
  show ?thesis
    using h sz
      setRawData_size_gate [OF h, of "[1, 2, 3]" example_heap]
      setRawData_size_gate [OF h, of "[1, 2, 3]" first_throws_heap]
      setRawData_size_gate [OF h, of raw_777 example_heap]
    by (simp add: l n sz')
qed






end
